theory Spec2Isabelle
  imports Main "HOL-Library.AList" "HOL-Library.Signed_Division"
begin

section \<open>The REST client of package httd (internal/httd/client.go)\<close>

text \<open>
  A shallow embedding of \<^verbatim>\<open>internal/httd/client.go\<close>: the constructor
  \<^verbatim>\<open>NewClient\<close>, the version allow-list, the header copy, the body decoder and
  the dispatch \<^verbatim>\<open>Client.Do\<close>.

  Go values are modelled as follows.
  \<^item> \<^verbatim>\<open>string\<close> and \<^verbatim>\<open>[]byte\<close> are byte sequences: \<open>string\<close> (a list of 8-bit
    characters). A nil slice is \<open>None\<close> where the code returns nil on purpose.
  \<^item> \<^verbatim>\<open>int\<close> is \<open>int\<close>; no arithmetic of the file can overflow.
  \<^item> A function of this file returning \<^verbatim>\<open>(x, err)\<close> returns a pair of options, so
    that a mixed result is expressible and its absence is a theorem, not a typing
    accident. A function of the standard library returns a sum, as it documents.
  \<^item> \<^verbatim>\<open>http.Header\<close> is a Go map from keys to value lists. Maps are reference
    values, so header maps live in a store (a list of maps, an address is an index)
    and the client holds the address of its template.
  \<^item> The interfaces \<^verbatim>\<open>HttpClientDoer\<close>, \<^verbatim>\<open>RESTBucket\<close> and
    \<^verbatim>\<open>RESTBucketManager\<close> are function-valued fields over an abstract world
    \<open>'w\<close> (network, clock and rate-limit state), passed along explicitly.
\<close>

subsection \<open>Constants (client.go, lines 19-35)\<close>

type_synonym bytes = string

definition BaseURL :: string where
  "BaseURL = ''https://discord.com/api''"

definition ContentEncoding :: string where
  "ContentEncoding = ''Content-Encoding''"

definition ContentType :: string where
  "ContentType = ''Content-Type''"

definition ContentTypeJSON :: string where
  "ContentTypeJSON = ''application/json''"

definition GZIPCompression :: string where
  "GZIPCompression = ''gzip''"

text \<open>\<^verbatim>\<open>fmt.Sprintf(AuthorizationFormat, t)\<close> with the format \<^verbatim>\<open>"%s"\<close>.\<close>

definition AuthorizationFormat :: "string \<Rightarrow> string" where
  "AuthorizationFormat t = t"

text \<open>\<^verbatim>\<open>fmt.Sprintf(UserAgentFormat, a, b, c)\<close> with the format
  \<^verbatim>\<open>"DiscordBot (%s, %s) %s"\<close>.\<close>

definition UserAgentFormat :: "string \<Rightarrow> string \<Rightarrow> string \<Rightarrow> string" where
  "UserAgentFormat a b c = ''DiscordBot ('' @ a @ '', '' @ b @ '') '' @ c"

text \<open>\<^verbatim>\<open>http.StatusNotModified\<close> of the standard library.\<close>

definition StatusNotModified :: int where
  "StatusNotModified = 304"

subsection \<open>Decimal rendering (strconv.Itoa, strconv.FormatInt in base 10)\<close>

definition digitChar :: "nat \<Rightarrow> char" where
  "digitChar d = ''0123456789'' ! (d mod 10)"

function digitsOf :: "nat \<Rightarrow> string" where
  "digitsOf n = (if n < 10 then [digitChar n] else digitsOf (n div 10) @ [digitChar n])"
  by pat_completeness auto
termination
  by (relation "measure (\<lambda>n. n)") auto

declare digitsOf.simps [simp del]

definition Itoa :: "int \<Rightarrow> string" where
  "Itoa i = (if i < 0 then CHR ''-'' # digitsOf (nat (- i)) else digitsOf (nat i))"

subsection \<open>Errors (client.go, lines 69-82)\<close>

text \<open>The struct \<^verbatim>\<open>ErrREST\<close>. Its field \<^verbatim>\<open>Bucket\<close> is named \<open>ErrBucket\<close>
  here, since the bucket manager has a method of the same name.\<close>

record ErrREST =
  Code :: int
  Msg :: string
  Suggestion :: string
  HTTPCode :: int
  ErrBucket :: "string list"
  HashedEndpoint :: string

text \<open>A Go \<^verbatim>\<open>error\<close> value: one made by \<^verbatim>\<open>errors.New\<close> (also what a
  collaborator returns), or a pointer to an \<^verbatim>\<open>ErrREST\<close>.\<close>

datatype error = errors_New string | ErrRESTError ErrREST

text \<open>\<^verbatim>\<open>(e *ErrREST) Error()\<close>, lines 80-82; \<^verbatim>\<open>%+v\<close> of a string slice prints
  its elements between brackets, separated by blanks.\<close>

fun joinBlank :: "string list \<Rightarrow> string" where
  "joinBlank [] = []"
| "joinBlank [x] = x"
| "joinBlank (x # y # ys) = x @ '' '' @ joinBlank (y # ys)"

definition Error :: "ErrREST \<Rightarrow> string" where
  "Error e = Msg e @ [CHR 0x0A] @ Suggestion e @ [CHR 0x0A] @ HashedEndpoint e @ '' => ['' @
     joinBlank (ErrBucket e) @ '']''"

subsection \<open>The allow-list of API versions (client.go, lines 101-116)\<close>

definition supports :: "int list" where
  "supports = [8]"

text \<open>The loop over \<^verbatim>\<open>supports\<close>: \<open>supported\<close> is the flag, set and left by
  \<^verbatim>\<open>break\<close> at the first match.\<close>

fun supportsLoop :: "int list \<Rightarrow> int \<Rightarrow> bool \<Rightarrow> bool" where
  "supportsLoop [] version supported = supported"
| "supportsLoop (supportedVersion # rest) version supported =
     (if supportedVersion = version then True else supportsLoop rest version supported)"

definition SupportsDiscordAPIVersion :: "int \<Rightarrow> bool" where
  "SupportsDiscordAPIVersion version = supportsLoop supports version False"

subsection \<open>Header maps (net/http) and the store they live in\<close>

text \<open>
  An \<^verbatim>\<open>http.Header\<close> is a \<^verbatim>\<open>map[string][]string\<close>: here an association list
  whose order stands for the unspecified order in which Go ranges over a map. The
  methods of \<^verbatim>\<open>net/http\<close> put every key through
  \<^verbatim>\<open>textproto.CanonicalMIMEHeaderKey\<close> first; that function of the standard
  library is the parameter \<open>canon\<close>.
\<close>

type_synonym http_Header = "(string \<times> string list) list"

definition valuesOf :: "http_Header \<Rightarrow> string \<Rightarrow> string list" where
  "valuesOf h k = (case map_of h k of None \<Rightarrow> [] | Some vs \<Rightarrow> vs)"

definition Header_Get :: "(string \<Rightarrow> string) \<Rightarrow> http_Header \<Rightarrow> string \<Rightarrow> string" where
  "Header_Get canon h key = (case valuesOf h (canon key) of [] \<Rightarrow> [] | v # _ \<Rightarrow> v)"

definition Header_Set :: "(string \<Rightarrow> string) \<Rightarrow> http_Header \<Rightarrow> string \<Rightarrow> string \<Rightarrow> http_Header" where
  "Header_Set canon h key val = AList.update (canon key) [val] h"

definition Header_Add :: "(string \<Rightarrow> string) \<Rightarrow> http_Header \<Rightarrow> string \<Rightarrow> string \<Rightarrow> http_Header" where
  "Header_Add canon h key val = AList.update (canon key) (valuesOf h (canon key) @ [val]) h"

definition Header_Del :: "(string \<Rightarrow> string) \<Rightarrow> http_Header \<Rightarrow> string \<Rightarrow> http_Header" where
  "Header_Del canon h key = AList.delete (canon key) h"

text \<open>The store of header maps: an address is an index, a new map is appended.
  Every address the code holds was handed out by \<open>alloc\<close>, so it is in range. The
  value lists are plain values: no code of this file lets two maps share a slice
  (\<^verbatim>\<open>copyHeader\<close> adds the strings one by one).\<close>

type_synonym addr = nat
type_synonym hstore = "http_Header list"

definition alloc :: "http_Header \<Rightarrow> hstore \<Rightarrow> addr \<times> hstore" where
  "alloc h s = (length s, s @ [h])"

definition store_Set :: "(string \<Rightarrow> string) \<Rightarrow> addr \<Rightarrow> string \<Rightarrow> string \<Rightarrow> hstore \<Rightarrow> hstore" where
  "store_Set canon a key val s = s[a := Header_Set canon (s ! a) key val]"

definition store_Add :: "(string \<Rightarrow> string) \<Rightarrow> addr \<Rightarrow> string \<Rightarrow> string \<Rightarrow> hstore \<Rightarrow> hstore" where
  "store_Add canon a key val s = s[a := Header_Add canon (s ! a) key val]"

definition store_Del :: "(string \<Rightarrow> string) \<Rightarrow> addr \<Rightarrow> string \<Rightarrow> hstore \<Rightarrow> hstore" where
  "store_Del canon a key s = s[a := Header_Del canon (s ! a) key]"

text \<open>\<^verbatim>\<open>copyHeader\<close>, lines 118-126: a new map \<open>cp\<close>, then for every key of \<open>h\<close>
  and every value under it one \<^verbatim>\<open>cp.Add\<close>. It returns the address of \<open>cp\<close>.\<close>

definition copyHeader :: "(string \<Rightarrow> string) \<Rightarrow> addr \<Rightarrow> hstore \<Rightarrow> addr \<times> hstore" where
  "copyHeader canon h s =
     (case alloc [] s of (cp, s1) \<Rightarrow>
        (cp, fold (\<lambda>(k, vs) s2. fold (\<lambda>v s3. store_Add canon cp k v s3) vs s2) (s ! h) s1))"

subsection \<open>Requests and responses\<close>

text \<open>
  The type \<^verbatim>\<open>Request\<close> is declared outside this file; its fields are the ones
  \<^verbatim>\<open>Client.Do\<close> reads and writes. \<^verbatim>\<open>Body\<close> is an \<^verbatim>\<open>interface{}\<close>: nil, an
  \<^verbatim>\<open>io.Reader\<close> (given by the bytes it yields), or any other value. \<open>Method\<close> holds
  what \<^verbatim>\<open>r.Method.String()\<close> returns. The field \<^verbatim>\<open>ContentType\<close> is named
  \<open>reqContentType\<close>, since \<open>ContentType\<close> is the header name above.
\<close>

datatype 'v body = Reader bytes | Value 'v

record 'v Request =
  Method :: string
  Endpoint :: string
  Body :: "'v body option"
  reqContentType :: string
  Reason :: string
  bodyReader :: "bytes option"
  hashedEndpoint :: string

text \<open>An \<^verbatim>\<open>*http.Request\<close>; \<open>'h\<close> is an address while the request is built and
  the header map itself in the snapshot handed to the transport.\<close>

record 'h http_Request =
  rqMethod :: string
  rqURL :: string
  rqBody :: "bytes option"
  rqHeader :: 'h

text \<open>An \<^verbatim>\<open>*http.Response\<close>; \<open>respBody\<close> is what reading \<^verbatim>\<open>resp.Body\<close> to its end
  gives: all its bytes, or a read error.\<close>

record response =
  StatusCode :: int
  Header :: http_Header
  respBody :: "error + bytes"

subsection \<open>The interfaces (client.go, lines 37-67 and 84-86)\<close>

text \<open>
  \<^verbatim>\<open>HttpClientDoer.Do\<close> follows the contract of \<^verbatim>\<open>http.Client.Do\<close>: an error, or
  a response whose header map and body are there.

  \<^verbatim>\<open>RESTBucket.Transaction\<close> takes the work and returns three values of its own
  choice. \<^verbatim>\<open>RESTBucketManager.Bucket\<close> takes the key and a callback on the bucket.
  In the source the callback stores the transaction's three results in the variables
  \<^verbatim>\<open>resp, body, err\<close> of \<^verbatim>\<open>Do\<close>; here \<open>Bucket\<close> returns what those variables hold
  when it is done (all nil when it never ran the callback). No implementation is
  fixed: a manager may run the work once, never, or hand back anything.
\<close>

type_synonym 'w HttpClientDoer = "http_Header http_Request \<Rightarrow> 'w \<Rightarrow> (error + response) \<times> 'w"

type_synonym result3 = "response option \<times> bytes option \<times> error option"

type_synonym 'w work = "'w \<Rightarrow> result3 \<times> 'w"

type_synonym 'w RESTBucket = "'w work \<Rightarrow> 'w work"

record 'w RESTBucketManager =
  Bucket :: "string \<Rightarrow> ('w RESTBucket \<Rightarrow> 'w work) \<Rightarrow> 'w work"
  BucketGrouping :: "'w \<Rightarrow> string \<Rightarrow> string list option"

subsection \<open>Client and Config (client.go, lines 88-99 and 170-187)\<close>

record 'w Client =
  url :: string
  reqHeader :: addr
  httpClient :: "'w HttpClientDoer"
  cancelRequestWhenRateLimited :: bool
  buckets :: "'w RESTBucketManager"

record 'w Config =
  APIVersion :: int
  BotToken :: string
  HttpClient :: "'w HttpClientDoer option"
  CancelRequestWhenRateLimited :: bool
  RESTBucketManager :: "'w RESTBucketManager option"
  UserAgentVersion :: string
  UserAgentSourceURL :: string
  UserAgentExtra :: string

text \<open>\<^verbatim>\<open>(c *Client) BucketGrouping()\<close>, lines 97-99.\<close>

definition Client_BucketGrouping :: "'w Client \<Rightarrow> 'w \<Rightarrow> string \<Rightarrow> string list option" where
  "Client_BucketGrouping c = BucketGrouping (buckets c)"

subsection \<open>NewClient (client.go, lines 128-168)\<close>

text \<open>
  \<open>newManager\<close> is the value of \<^verbatim>\<open>NewManager(nil)\<close>, a constructor declared outside
  this file. \<^verbatim>\<open>NewClient\<close> writes to \<^verbatim>\<open>conf\<close> and makes a header map, so it
  returns the configuration and the store next to its two results.
\<close>

definition NewClient ::
  "'w RESTBucketManager \<Rightarrow> 'w Config \<Rightarrow> hstore \<Rightarrow>
     ('w Client option \<times> error option) \<times> 'w Config \<times> hstore" where
  "NewClient newManager conf s =
     (if \<not> SupportsDiscordAPIVersion (APIVersion conf) then
        ((None, Some (errors_New (''Discord API version '' @ Itoa (APIVersion conf) @
            '' is not supported''))), conf, s)
      else if BotToken conf = [] then
        ((None, Some (errors_New ''no Discord Bot Token was provided'')), conf, s)
      else
        (case HttpClient conf of
           None \<Rightarrow> ((None, Some (errors_New ''missing http client'')), conf, s)
         | Some doer \<Rightarrow>
             (case (case RESTBucketManager conf of
                      None \<Rightarrow> (newManager, conf\<lparr>RESTBucketManager := Some newManager\<rparr>)
                    | Some m \<Rightarrow> (m, conf)) of
                (manager, conf1) \<Rightarrow>
                  if UserAgentSourceURL conf1 = [] \<or> UserAgentVersion conf1 = [] then
                    ((None, Some (errors_New
                       ''both a source(url) and a version must be present for sending requests to the Discord REST API'')),
                     conf1, s)
                  else
                    (case alloc
                            [(''Authorization'', [AuthorizationFormat (BotToken conf1)]),
                             (''User-Agent'', [UserAgentFormat (UserAgentSourceURL conf1)
                                 (UserAgentVersion conf1) (UserAgentExtra conf1)]),
                             (''Accept-Encoding'', [''gzip''])] s of
                       (header, s1) \<Rightarrow>
                         ((Some \<lparr>url = BaseURL @ ''/v'' @ Itoa (APIVersion conf1),
                                 reqHeader = header,
                                 httpClient = doer,
                                 cancelRequestWhenRateLimited = False,
                                 buckets = manager\<rparr>, None),
                          conf1, s1)))))"

subsection \<open>What Client.Do uses from outside this file\<close>

text \<open>
  \<^verbatim>\<open>Client.Do\<close> calls into the rest of the package, the package \<^verbatim>\<open>json\<close> and Go's
  standard library. None of that code is in this file, so each piece is a field of
  the environment and every theorem holds for whatever the fields are.
  \<^item> \<open>PopulateMissing\<close>: the method \<^verbatim>\<open>(r *Request) PopulateMissing()\<close>, as the
    request it leaves behind.
  \<^item> \<open>json_Marshal\<close>: \<^verbatim>\<open>json.Marshal\<close>, bytes or an error.
  \<^item> \<open>json_Unmarshal\<close>: \<^verbatim>\<open>json.Unmarshal(data, e)\<close> for an \<^verbatim>\<open>*ErrREST\<close>, as what it
    does to the two fields that have a JSON name, \<^verbatim>\<open>Code\<close> and \<^verbatim>\<open>Msg\<close> (lines
    70-71): it takes the data and the two values before, and gives the two values
    after and its error. The four other fields carry the tag \<^verbatim>\<open>json:"-"\<close> (lines
    72-75), which keeps a decoder from writing them.
  \<^item> \<open>requestError\<close>: the checks of \<^verbatim>\<open>http.NewRequestWithContext\<close> on the method
    and the URL.
  \<^item> \<open>CanonicalMIMEHeaderKey\<close>: the key normalisation of \<^verbatim>\<open>net/textproto\<close>.
  \<^item> \<open>XAuditLogReason\<close>, \<open>XDisgordNow\<close>: two header names, constants of the package.
  \<^item> \<open>UnixNano\<close>: \<^verbatim>\<open>time.Now().UnixNano()\<close>, read off the world.
  \<^item> \<open>gzip_NewReader\<close>, \<open>gzip_ReadFrom\<close>: \<^verbatim>\<open>gzip.NewReader\<close> (it reads the gzip
    header and fails on a bad one; the reader is given by the bytes left) and reading
    that reader to its end.
  \<^item> \<open>NormalizeDiscordHeader\<close>: the header normaliser of the package.
\<close>

record ('v, 'w) env =
  PopulateMissing :: "'v Request \<Rightarrow> 'v Request"
  json_Marshal :: "'v \<Rightarrow> error + bytes"
  json_Unmarshal :: "bytes \<Rightarrow> int \<times> string \<Rightarrow> (int \<times> string) \<times> error option"
  requestError :: "string \<Rightarrow> string \<Rightarrow> error option"
  CanonicalMIMEHeaderKey :: "string \<Rightarrow> string"
  XAuditLogReason :: string
  XDisgordNow :: string
  UnixNano :: "'w \<Rightarrow> int"
  gzip_NewReader :: "bytes \<Rightarrow> error + bytes"
  gzip_ReadFrom :: "bytes \<Rightarrow> error + bytes"
  NormalizeDiscordHeader :: "int \<Rightarrow> http_Header \<Rightarrow> bytes \<Rightarrow> http_Header \<times> error option"

text \<open>
  Modelled from the spec: \<^verbatim>\<open>json.Unmarshal\<close> of package
  \<^verbatim>\<open>github.com/Vedza/disgord/json\<close>, whose source is not at hand. The spec gives the codec
  as \<^verbatim>\<open>deserialize(bytes, targetShape) -> value|error\<close> and says of this call:
  "attempt to decode server-supplied structured fields (code, message) into the same
  error value, overlaying but never discarding the status-based message on decode
  failure". So the decoder yields a value or an error; a value holds the fields the
  body supplies (\<^verbatim>\<open>code\<close>, \<^verbatim>\<open>message\<close>, each present or not) and is laid over
  the two values before; an error leaves them as they were.
\<close>

definition deserializeInto ::
  "(bytes \<Rightarrow> error + (int option \<times> string option)) \<Rightarrow>
     bytes \<Rightarrow> int \<times> string \<Rightarrow> (int \<times> string) \<times> error option" where
  "deserializeInto deserialize data target =
     (case deserialize data of
        Inl err \<Rightarrow> (target, Some err)
      | Inr (code, message) \<Rightarrow>
          (((case code of None \<Rightarrow> fst target | Some c \<Rightarrow> c),
            (case message of None \<Rightarrow> snd target | Some m \<Rightarrow> m)), None))"

text \<open>\<^verbatim>\<open>http.NewRequestWithContext\<close>: an error, or a request with a new, empty
  header map. The context only travels on to the transport and the bucket, whose
  behaviour is not fixed here, so it has no parameter of its own.\<close>

definition NewRequestWithContext ::
  "(string \<Rightarrow> string \<Rightarrow> error option) \<Rightarrow> string \<Rightarrow> string \<Rightarrow> bytes option \<Rightarrow> hstore \<Rightarrow>
     (error + addr http_Request) \<times> hstore" where
  "NewRequestWithContext check method u body s =
     (case check method u of
        Some err \<Rightarrow> (Inl err, s)
      | None \<Rightarrow>
          (case alloc [] s of
             (h, s1) \<Rightarrow> (Inr \<lparr>rqMethod = method, rqURL = u, rqBody = body, rqHeader = h\<rparr>, s1)))"

text \<open>\<^verbatim>\<open>string(body)\<close> and \<^verbatim>\<open>len(body)\<close> read a nil slice as the empty one.\<close>

definition bytesOf :: "bytes option \<Rightarrow> bytes" where
  "bytesOf body = (case body of None \<Rightarrow> [] | Some b \<Rightarrow> b)"

subsection \<open>convertStructToIOReader (client.go, lines 314-323)\<close>

definition convertStructToIOReader :: "('v \<Rightarrow> error + bytes) \<Rightarrow> 'v \<Rightarrow> bytes option \<times> error option" where
  "convertStructToIOReader marshal v =
     (case marshal v of
        Inl err \<Rightarrow> (None, Some err)
      | Inr jsonParamsBytes \<Rightarrow> (Some jsonParamsBytes, None))"

subsection \<open>decodeResponseBody (client.go, lines 197-224)\<close>

definition decodeResponseBody :: "('v, 'w) env \<Rightarrow> response \<Rightarrow> bytes option \<times> error option" where
  "decodeResponseBody env resp =
     (case respBody resp of
        Inl err \<Rightarrow> (None, Some err)
      | Inr buffer \<Rightarrow>
          if Header_Get (CanonicalMIMEHeaderKey env) (Header resp) ContentEncoding = GZIPCompression then
            (case gzip_NewReader env buffer of
               Inl err \<Rightarrow> (None, Some err)
             | Inr r \<Rightarrow>
                 (case gzip_ReadFrom env r of
                    Inl err \<Rightarrow> (None, Some err)
                  | Inr resB \<Rightarrow> (Some resB, None)))
          else (Some buffer, None))"

subsection \<open>Client.Do (client.go, lines 226-312)\<close>

text \<open>A call returns, or panics (a nil pointer is dereferenced).\<close>

datatype 'a go = Panicked | Returned 'a

text \<open>Lines 228-242, on the request \<^verbatim>\<open>PopulateMissing\<close> left: the body reader is
  prepared, or the call ends with an error.\<close>

definition Do_prepareBody :: "('v, 'w) env \<Rightarrow> 'v Request \<Rightarrow> error option \<times> 'v Request" where
  "Do_prepareBody env r =
     (case Body r of
        None \<Rightarrow> (None, r)
      | Some b \<Rightarrow>
          if bodyReader r \<noteq> None then (None, r)
          else
            (case b of
               Reader rd \<Rightarrow> (None, r\<lparr>bodyReader := Some rd\<rparr>)
             | Value v \<Rightarrow>
                 if reqContentType r \<noteq> ContentTypeJSON then
                   (Some (errors_New
                      ''unknown request body types and only be used in conjunction with httd.ContentTypeJSON''),
                    r)
                 else
                   (case convertStructToIOReader (json_Marshal env) v of
                      (rd, Some err) \<Rightarrow> (Some err, r\<lparr>bodyReader := rd\<rparr>)
                    | (rd, None) \<Rightarrow> (None, r\<lparr>bodyReader := rd\<rparr>))))"

text \<open>Lines 227-258: the request is finalised, its body prepared, the
  \<^verbatim>\<open>*http.Request\<close> made and its header set built. The result is an error or the
  request that goes out, with the \<^verbatim>\<open>Request\<close> and the store as they are left.\<close>

definition Do_request ::
  "('v, 'w) env \<Rightarrow> 'w Client \<Rightarrow> 'v Request \<Rightarrow> hstore \<Rightarrow>
     (error + addr http_Request) \<times> 'v Request \<times> hstore" where
  "Do_request env c r s =
     (case Do_prepareBody env (PopulateMissing env r) of
        (Some err, r1) \<Rightarrow> (Inl err, r1, s)
      | (None, r1) \<Rightarrow>
          (case NewRequestWithContext (requestError env) (Method r1) (url c @ Endpoint r1)
                  (bodyReader r1) s of
             (Inl err, s1) \<Rightarrow> (Inl err, r1, s1)
           | (Inr req, s1) \<Rightarrow>
               (case copyHeader (CanonicalMIMEHeaderKey env) (reqHeader c) s1 of
                  (header, s2) \<Rightarrow>
                    (let s3 = store_Set (CanonicalMIMEHeaderKey env) header ContentType
                                (reqContentType r1) s2;
                         s4 = (if Reason r1 \<noteq> [] then
                                 store_Add (CanonicalMIMEHeaderKey env) header
                                   (XAuditLogReason env) (Reason r1) s3
                               else
                                 store_Del (CanonicalMIMEHeaderKey env) (rqHeader req)
                                   (XAuditLogReason env) s3)
                     in (Inr (req\<lparr>rqHeader := header\<rparr>), r1, s4)))))"

text \<open>The request as the transport sees it: the header map is read off the store.\<close>

definition outgoing :: "hstore \<Rightarrow> addr http_Request \<Rightarrow> http_Header http_Request" where
  "outgoing s req =
     \<lparr>rqMethod = rqMethod req, rqURL = rqURL req, rqBody = rqBody req, rqHeader = s ! rqHeader req\<rparr>"

text \<open>Lines 262-282, the function handed to \<^verbatim>\<open>Transaction\<close>: the network call, the
  time stamp, the decoding of the body and the normalising of the header.\<close>

definition Do_work :: "('v, 'w) env \<Rightarrow> 'w Client \<Rightarrow> http_Header http_Request \<Rightarrow> 'w work" where
  "Do_work env c req w =
     (case httpClient c req w of
        (Inl err, w1) \<Rightarrow> ((None, None, Some err), w1)
      | (Inr resp, w1) \<Rightarrow>
          (let epochMs = UnixNano env w1 sdiv 1000000;
               resp1 = resp\<lparr>Header := Header_Set (CanonicalMIMEHeaderKey env) (Header resp)
                                         (XDisgordNow env) (Itoa epochMs)\<rparr>
           in case decodeResponseBody env resp1 of
                (_, Some err) \<Rightarrow> ((None, None, Some err), w1)
              | (body, None) \<Rightarrow>
                  (case NormalizeDiscordHeader env (StatusCode resp1) (Header resp1) (bytesOf body) of
                     (h, err) \<Rightarrow> ((Some (resp1\<lparr>Header := h\<rparr>), body, err), w1))))"

text \<open>Lines 261-283: the bucket of the request's key runs the work in a
  transaction.\<close>

definition Do_dispatch ::
  "('v, 'w) env \<Rightarrow> 'w Client \<Rightarrow> http_Header http_Request \<Rightarrow> 'v Request \<Rightarrow> 'w work" where
  "Do_dispatch env c req r =
     Bucket (buckets c) (hashedEndpoint r) (\<lambda>bucket. bucket (Do_work env c req))"

text \<open>The message of line 293-294.\<close>

definition statusMessage :: "int \<Rightarrow> string" where
  "statusMessage code =
     ''response was not within the successful http code range [200, 300). code: '' @ Itoa code"

text \<open>Lines 284-311, on the three values the transaction left in
  \<^verbatim>\<open>resp, body, err\<close>. With no error and no response, \<^verbatim>\<open>resp.StatusCode\<close>
  dereferences nil.\<close>

definition Do_classify ::
  "('v, 'w) env \<Rightarrow> 'w Client \<Rightarrow> 'v Request \<Rightarrow> result3 \<Rightarrow> 'w \<Rightarrow> result3 go" where
  "Do_classify env c r res w =
     (case res of
        (_, _, Some err) \<Rightarrow> Returned (None, None, Some err)
      | (None, _, None) \<Rightarrow> Panicked
      | (Some resp, body, None) \<Rightarrow>
          (let noDiff = (StatusCode resp = StatusNotModified);
               withinSuccessScope = (200 \<le> StatusCode resp \<and> StatusCode resp < 300)
           in if \<not> (noDiff \<or> withinSuccessScope) then
                (let e = \<lparr>Code = 0,
                          Msg = statusMessage (StatusCode resp),
                          Suggestion = bytesOf body,
                          HTTPCode = StatusCode resp,
                          ErrBucket = (case BucketGrouping (buckets c) w (hashedEndpoint r) of
                                         None \<Rightarrow> [] | Some g \<Rightarrow> g),
                          HashedEndpoint = hashedEndpoint r\<rparr>;
                     e1 = (if length (bytesOf body) > 0 then
                             (case json_Unmarshal env (bytesOf body) (Code e, Msg e) of
                                ((code, message), _) \<Rightarrow> e\<lparr>Code := code, Msg := message\<rparr>)
                           else e)
                 in Returned (None, None, Some (ErrRESTError e1)))
              else Returned (Some resp, body, None)))"

text \<open>The whole of \<^verbatim>\<open>Client.Do\<close>: its three results (or a panic), and the request,
  the store and the world as the call leaves them.\<close>

definition Do ::
  "('v, 'w) env \<Rightarrow> 'w Client \<Rightarrow> 'v Request \<Rightarrow> hstore \<Rightarrow> 'w \<Rightarrow>
     result3 go \<times> 'v Request \<times> hstore \<times> 'w" where
  "Do env c r s w =
     (case Do_request env c r s of
        (Inl err, r1, s1) \<Rightarrow> (Returned (None, None, Some err), r1, s1, w)
      | (Inr req, r1, s1) \<Rightarrow>
          (case Do_dispatch env c (outgoing s1 req) r1 w of
             (res, w1) \<Rightarrow> (Do_classify env c r1 res w1, r1, s1, w1)))"

subsection \<open>The outgoing header set, as a value\<close>

text \<open>
  Two definitions that say, without a store, what lines 250-258 are meant to build:
  \<open>copyOf\<close> is the map \<^verbatim>\<open>copyHeader\<close> fills, and \<open>builtHeader\<close> is that copy with the
  content type set and, for a request with a reason, the audit header added. The
  theorems compare the store after \<^verbatim>\<open>Do\<close> with them.
\<close>

definition copyOf :: "(string \<Rightarrow> string) \<Rightarrow> http_Header \<Rightarrow> http_Header" where
  "copyOf canon h = fold (\<lambda>(k, vs) cp. fold (\<lambda>v cp1. Header_Add canon cp1 k v) vs cp) h []"

definition builtHeader :: "('v, 'w) env \<Rightarrow> http_Header \<Rightarrow> 'v Request \<Rightarrow> http_Header" where
  "builtHeader env template r =
     (let h = Header_Set (CanonicalMIMEHeaderKey env) (copyOf (CanonicalMIMEHeaderKey env) template)
                ContentType (reqContentType r)
      in if Reason r \<noteq> [] then
           Header_Add (CanonicalMIMEHeaderKey env) h (XAuditLogReason env) (Reason r)
         else h)"

subsection \<open>Concrete collaborators, for the examples\<close>

text \<open>
  The examples below run the definitions on concrete values. The world counts the
  transactions entered and the network calls made.
  \<^item> \<open>transport0 resp\<close> counts the call and answers \<open>resp\<close>.
  \<^item> \<open>manager0\<close> runs the callback once; its transaction counts itself and runs the
    work once. It groups each key with itself.
  \<^item> \<open>env0\<close>: finalising defaults the content type to JSON and the bucket key to the
    endpoint; the decoder is the one of the spec and reads the one body \<open>body403\<close>
    (every other body is a decode failure); header keys are left as they
    are (every key used is canonical already); the gzip stand-in frames the data
    behind the two magic bytes of a gzip header.
\<close>

definition body403 :: bytes where
  "body403 = ''{\"code\":50001,\"message\":\"Missing Access\"}''"

definition decode0 :: "bytes \<Rightarrow> error + (int option \<times> string option)" where
  "decode0 b = (if b = body403 then Inr (Some 50001, Some ''Missing Access'')
                else Inl (errors_New ''invalid character''))"

definition gzipMagic :: bytes where
  "gzipMagic = [CHR 0x1F, CHR 0x8B]"

definition gzipNewReader0 :: "bytes \<Rightarrow> error + bytes" where
  "gzipNewReader0 b = (if take 2 b = gzipMagic then Inr (drop 2 b)
                       else Inl (errors_New ''gzip: invalid header''))"

definition populate0 :: "nat Request \<Rightarrow> nat Request" where
  "populate0 r =
     r\<lparr>reqContentType := (if reqContentType r = [] then ContentTypeJSON else reqContentType r),
       hashedEndpoint := (if hashedEndpoint r = [] then Endpoint r else hashedEndpoint r)\<rparr>"

definition env0 :: "(nat, nat \<times> nat) env" where
  "env0 =
     \<lparr>PopulateMissing = populate0,
      json_Marshal = (\<lambda>v. Inr ''{}''),
      json_Unmarshal = deserializeInto decode0,
      requestError = (\<lambda>method u. None),
      CanonicalMIMEHeaderKey = (\<lambda>k. k),
      XAuditLogReason = ''X-Audit-Log-Reason'',
      XDisgordNow = ''X-Disgord-Now'',
      UnixNano = (\<lambda>w. 1500000),
      gzip_NewReader = gzipNewReader0,
      gzip_ReadFrom = Inr,
      NormalizeDiscordHeader = (\<lambda>code h body. (h, None))\<rparr>"

definition transport0 :: "response \<Rightarrow> (nat \<times> nat) HttpClientDoer" where
  "transport0 resp = (\<lambda>req (t, n). (Inr resp, (t, Suc n)))"

definition manager0 :: "(nat \<times> nat) RESTBucketManager" where
  "manager0 =
     \<lparr>Bucket = (\<lambda>key cb. cb (\<lambda>work (t, n). work (Suc t, n))),
      BucketGrouping = (\<lambda>w key. Some [key])\<rparr>"

text \<open>A manager that breaks the protocol: it never runs the callback, so the three
  variables of \<^verbatim>\<open>Do\<close> stay nil.\<close>

definition managerIdle :: "(nat \<times> nat) RESTBucketManager" where
  "managerIdle =
     \<lparr>Bucket = (\<lambda>key cb w. ((None, None, None), w)),
      BucketGrouping = (\<lambda>w key. None)\<rparr>"

definition conf0 :: "response \<Rightarrow> (nat \<times> nat) Config" where
  "conf0 resp =
     \<lparr>APIVersion = 8,
      BotToken = ''Bot token'',
      HttpClient = Some (transport0 resp),
      CancelRequestWhenRateLimited = False,
      RESTBucketManager = None,
      UserAgentVersion = ''v0.1'',
      UserAgentSourceURL = ''https://example.org/bot'',
      UserAgentExtra = []\<rparr>"

definition header0 :: http_Header where
  "header0 =
     [(''Authorization'', [''Bot token'']),
      (''User-Agent'', [''DiscordBot (https://example.org/bot, v0.1) '']),
      (''Accept-Encoding'', [''gzip''])]"

definition client0 :: "response \<Rightarrow> (nat \<times> nat) Client" where
  "client0 resp =
     \<lparr>url = ''https://discord.com/api/v8'',
      reqHeader = 0,
      httpClient = transport0 resp,
      cancelRequestWhenRateLimited = False,
      buckets = manager0\<rparr>"

definition request0 :: "nat Request" where
  "request0 =
     \<lparr>Method = ''GET'',
      Endpoint = ''/channels/1/messages'',
      Body = None,
      reqContentType = [],
      Reason = [],
      bodyReader = None,
      hashedEndpoint = []\<rparr>"

definition resp403 :: response where
  "resp403 = \<lparr>StatusCode = 403, Header = [], respBody = Inr body403\<rparr>"

definition resp304 :: response where
  "resp304 = \<lparr>StatusCode = 304, Header = [], respBody = Inr []\<rparr>"

definition respGzip :: response where
  "respGzip =
     \<lparr>StatusCode = 200,
      Header = [(''Content-Encoding'', [''gzip''])],
      respBody = Inr (gzipMagic @ ''hello'')\<rparr>"

definition resp500 :: response where
  "resp500 = \<lparr>StatusCode = 500, Header = [], respBody = Inr ''oops''\<rparr>"

text \<open>A request with a structured body and a content type that is not JSON.\<close>

definition requestPlain :: "nat Request" where
  "requestPlain = request0\<lparr>Body := Some (Value 7), reqContentType := ''text/plain''\<rparr>"

text \<open>A request with a structured body and no content type, and the same request as
  one call of \<^verbatim>\<open>Do\<close> leaves it: finalised, with the marshalled body as its reader.\<close>

definition requestValue :: "nat Request" where
  "requestValue = request0\<lparr>Body := Some (Value 7)\<rparr>"

definition requestSent :: "nat Request" where
  "requestSent =
     \<lparr>Method = ''GET'',
      Endpoint = ''/channels/1/messages'',
      Body = Some (Value 7),
      reqContentType = ''application/json'',
      Reason = [],
      bodyReader = Some ''{}'',
      hashedEndpoint = ''/channels/1/messages''\<rparr>"

text \<open>The store that call leaves: the template, the empty map of the
  \<^verbatim>\<open>*http.Request\<close>, and the header set that went out.\<close>

definition storeSent :: hstore where
  "storeSent = [header0, [], header0 @ [(''Content-Type'', [''application/json''])]]"

text \<open>The compressor that goes with the gzip stand-in of \<open>env0\<close>.\<close>

definition compress0 :: "bytes \<Rightarrow> bytes" where
  "compress0 b = gzipMagic @ b"

section \<open>Unfolding rules and evaluated examples\<close>

lemmas header_defs = alloc_def copyHeader_def store_Add_def store_Set_def store_Del_def
  Header_Add_def Header_Set_def Header_Del_def Header_Get_def valuesOf_def
  ContentType_def ContentEncoding_def GZIPCompression_def ContentTypeJSON_def

lemmas Do_defs = Do_def Do_request_def Do_prepareBody_def NewRequestWithContext_def
  convertStructToIOReader_def outgoing_def Do_dispatch_def Do_work_def decodeResponseBody_def
  bytesOf_def Do_classify_def Let_def StatusNotModified_def deserializeInto_def statusMessage_def
  Itoa_def digitsOf.simps digitChar_def

lemmas example_defs = env0_def populate0_def request0_def client0_def header0_def manager0_def
  transport0_def resp403_def resp304_def respGzip_def resp500_def decode0_def body403_def
  gzipNewReader0_def gzipMagic_def requestPlain_def requestValue_def requestSent_def
  storeSent_def compress0_def managerIdle_def

lemma Do_request_example:
  "Do_request env0 (client0 resp) request0 [header0] =
     (Inr \<lparr>rqMethod = ''GET'', rqURL = ''https://discord.com/api/v8/channels/1/messages'',
            rqBody = None, rqHeader = 2\<rparr>,
      request0\<lparr>reqContentType := ''application/json'', hashedEndpoint := ''/channels/1/messages''\<rparr>,
      [header0, [], header0 @ [(''Content-Type'', [''application/json''])]])"
  by (simp add: Do_defs header_defs example_defs)

lemma Do_dispatch_example:
  "Do_dispatch env0 (client0 resp) req r (0, 0) =
     (case decodeResponseBody env0
             (resp\<lparr>Header := Header_Set (\<lambda>k. k) (Header resp) ''X-Disgord-Now'' ''1''\<rparr>) of
        (_, Some err) \<Rightarrow> ((None, None, Some err), (1, 1))
      | (body, None) \<Rightarrow>
          ((Some (resp\<lparr>Header := Header_Set (\<lambda>k. k) (Header resp) ''X-Disgord-Now'' ''1''\<rparr>),
            body, None), (1, 1)))"
  by (simp add: Do_dispatch_def Do_work_def env0_def client0_def manager0_def transport0_def
      Let_def Itoa_def digitsOf.simps digitChar_def split: prod.split option.split)

lemma Do_dispatch_resp304:
  "Do_dispatch env0 (client0 resp304) req r (0, 0) =
     ((Some \<lparr>StatusCode = 304, Header = [(''X-Disgord-Now'', [''1''])], respBody = Inr []\<rparr>,
       Some [], None), (1, 1))"
  by (simp add: Do_dispatch_example, simp add: decodeResponseBody_def resp304_def header_defs env0_def)



section \<open>The allow-list and the constructor\<close>

lemma supportsLoop_set: "supportsLoop xs version supported \<longleftrightarrow> version \<in> set xs \<or> supported"
  by (induction xs) auto

lemma SupportsDiscordAPIVersion_set: "SupportsDiscordAPIVersion version \<longleftrightarrow> version \<in> set supports"
  by (simp add: SupportsDiscordAPIVersion_def supportsLoop_set)

text \<open>
  Claim C10. The allow-list of supported API versions has exactly one element, 8:
  \<^verbatim>\<open>SupportsDiscordAPIVersion(v)\<close> is true if and only if \<open>v = 8\<close>, for every
  integer \<open>v\<close>.
\<close>

theorem C10_supports_only_version_8:
  "supports = [8] \<and> (SupportsDiscordAPIVersion v \<longleftrightarrow> v = 8)"
  by (simp add: SupportsDiscordAPIVersion_def supports_def)

text \<open>The two results of \<^verbatim>\<open>NewClient\<close>, one case per \<^verbatim>\<open>return\<close> of the source.\<close>

lemma NewClient_results:
  "fst (NewClient newManager conf s) =
     (if \<not> SupportsDiscordAPIVersion (APIVersion conf) then
        (None, Some (errors_New (''Discord API version '' @ Itoa (APIVersion conf) @
           '' is not supported'')))
      else if BotToken conf = [] then
        (None, Some (errors_New ''no Discord Bot Token was provided''))
      else if HttpClient conf = None then
        (None, Some (errors_New ''missing http client''))
      else if UserAgentSourceURL conf = [] \<or> UserAgentVersion conf = [] then
        (None, Some (errors_New
           ''both a source(url) and a version must be present for sending requests to the Discord REST API''))
      else
        (Some \<lparr>url = BaseURL @ ''/v'' @ Itoa (APIVersion conf),
               reqHeader = length s,
               httpClient = the (HttpClient conf),
               cancelRequestWhenRateLimited = False,
               buckets = (case RESTBucketManager conf of None \<Rightarrow> newManager | Some m \<Rightarrow> m)\<rparr>,
         None))"
  by (simp add: NewClient_def alloc_def split: option.split)

text \<open>
  Claim C5. \<^verbatim>\<open>NewClient\<close> returns a nil client together with an error if and only
  if the bot token is empty, or the HTTP transport is nil, or the user-agent source or
  the user-agent version is empty, or the API version is outside the supported set;
  in every other case it returns a client and no error.
\<close>

theorem C5_NewClient_configuration_error:
  "((\<exists>err. fst (NewClient newManager conf s) = (None, Some err)) \<longleftrightarrow>
      (BotToken conf = [] \<or> HttpClient conf = None \<or> UserAgentSourceURL conf = [] \<or>
       UserAgentVersion conf = [] \<or> APIVersion conf \<notin> set supports)) \<and>
   ((\<exists>c. fst (NewClient newManager conf s) = (Some c, None)) \<longleftrightarrow>
      \<not> (BotToken conf = [] \<or> HttpClient conf = None \<or> UserAgentSourceURL conf = [] \<or>
         UserAgentVersion conf = [] \<or> APIVersion conf \<notin> set supports))"
  by (auto simp add: NewClient_results SupportsDiscordAPIVersion_set)

text \<open>Version 9 is refused; the configuration \<open>conf0\<close> gives a client.\<close>

theorem C5_witness_version_9:
  "(\<exists>err. fst (NewClient manager0 ((conf0 resp304)\<lparr>APIVersion := 9\<rparr>) []) = (None, Some err)) \<and>
   (\<exists>c. fst (NewClient manager0 (conf0 resp304) []) = (Some c, None))"
  using C5_NewClient_configuration_error [of manager0 "(conf0 resp304)\<lparr>APIVersion := 9\<rparr>" "[]"]
        C5_NewClient_configuration_error [of manager0 "conf0 resp304" "[]"]
  by (simp add: conf0_def supports_def)

text \<open>
  Claim C9. A configuration without a bucket manager is not an error: for every
  configuration that meets the other requirements, \<^verbatim>\<open>NewClient\<close> stores the default
  manager in the configuration, succeeds, and the client uses that manager.
\<close>

theorem C9_nil_manager_is_defaulted:
  assumes "RESTBucketManager conf = None"
    and "SupportsDiscordAPIVersion (APIVersion conf)"
    and "BotToken conf \<noteq> []"
    and "HttpClient conf = Some doer"
    and "UserAgentSourceURL conf \<noteq> []"
    and "UserAgentVersion conf \<noteq> []"
  shows "\<exists>c s1. NewClient newManager conf s =
           ((Some c, None), conf\<lparr>RESTBucketManager := Some newManager\<rparr>, s1) \<and>
         buckets c = newManager \<and> httpClient c = doer"
  using assms by (simp add: NewClient_def alloc_def)

text \<open>\<open>conf0\<close> has no manager; the client built from it is \<open>client0\<close>, over \<open>manager0\<close>.\<close>

theorem C9_witness_conf0:
  "NewClient manager0 (conf0 resp304) [] =
     ((Some (client0 resp304), None), (conf0 resp304)\<lparr>RESTBucketManager := Some manager0\<rparr>,
      [header0])"
  using C9_nil_manager_is_defaulted [of "conf0 resp304" "transport0 resp304" manager0 "[]"]
  by (simp add: conf0_def SupportsDiscordAPIVersion_def supports_def NewClient_def alloc_def
      client0_def header0_def BaseURL_def UserAgentFormat_def AuthorizationFormat_def
      Itoa_def digitsOf.simps digitChar_def)

text \<open>The template of a client that \<^verbatim>\<open>NewClient\<close> made: a new map in the store, with
  the three keys of lines 156-160; the maps that were in the store are as before.\<close>

lemma NewClient_template:
  assumes "NewClient newManager conf s = ((Some c, None), conf1, s1)"
  shows "reqHeader c < length s1 \<and> take (length s) s1 = s \<and>
         map fst (s1 ! reqHeader c) = [''Authorization'', ''User-Agent'', ''Accept-Encoding'']"
  using assms
  by (auto simp add: NewClient_def alloc_def split: if_splits option.splits)

text \<open>So the template of such a client has no entry for a header whose canonical
  name is none of those three.\<close>

lemma NewClient_template_has_no:
  assumes "NewClient newManager conf s = ((Some c, None), conf1, s1)"
    and "canon key \<notin> canon ` {''Authorization'', ''User-Agent'', ''Accept-Encoding''}"
  shows "reqHeader c < length s1 \<and> canon key \<notin> canon ` fst ` set (s1 ! reqHeader c)"
proof -
  from NewClient_template [OF assms(1)]
  have 1: "reqHeader c < length s1"
    and 2: "map fst (s1 ! reqHeader c) = [''Authorization'', ''User-Agent'', ''Accept-Encoding'']"
    by simp_all
  have "fst ` set (s1 ! reqHeader c) = set (map fst (s1 ! reqHeader c))"
    by simp
  also have "\<dots> = {''Authorization'', ''User-Agent'', ''Accept-Encoding''}"
    by (simp only: 2) simp
  finally show ?thesis
    using 1 assms(2) by simp
qed

section \<open>The header copy\<close>

text \<open>Filling the new map, seen from the store: only the new map changes, and it
  ends as \<open>copyOf\<close> says.\<close>

lemma fold_store_Add:
  "fold (\<lambda>v s3. store_Add canon (length s) k v s3) vs (s @ [m]) =
     s @ [fold (\<lambda>v cp1. Header_Add canon cp1 k v) vs m]"
  by (induction vs arbitrary: m) (simp_all add: store_Add_def)

lemma fold_fold_store_Add:
  "fold (\<lambda>(k, vs) s2. fold (\<lambda>v s3. store_Add canon (length s) k v s3) vs s2) xs (s @ [m]) =
     s @ [fold (\<lambda>(k, vs) cp. fold (\<lambda>v cp1. Header_Add canon cp1 k v) vs cp) xs m]"
  by (induction xs arbitrary: m) (simp_all add: fold_store_Add split: prod.split)

lemma copyHeader_eq: "copyHeader canon h s = (length s, s @ [copyOf canon (s ! h)])"
  by (simp add: copyHeader_def alloc_def copyOf_def fold_fold_store_Add)

lemma keys_Header_Add:
  "fst ` set (Header_Add canon h k v) = insert (canon k) (fst ` set h)"
  by (simp add: Header_Add_def AList.dom_update)

lemma keys_Header_Set:
  "fst ` set (Header_Set canon h k v) = insert (canon k) (fst ` set h)"
  by (simp add: Header_Set_def AList.dom_update)

lemma keys_fold_Add:
  "fst ` set (fold (\<lambda>v cp1. Header_Add canon cp1 k v) vs m) \<subseteq> insert (canon k) (fst ` set m)"
proof (induction vs arbitrary: m)
  case Nil
  then show ?case by auto
next
  case (Cons v vs)
  have "fst ` set (fold (\<lambda>v cp1. Header_Add canon cp1 k v) vs (Header_Add canon m k v))
          \<subseteq> insert (canon k) (fst ` set (Header_Add canon m k v))"
    by (rule Cons.IH)
  then show ?case by (simp add: keys_Header_Add)
qed

lemma keys_fold_fold_Add:
  "fst ` set (fold (\<lambda>(k, vs) cp. fold (\<lambda>v cp1. Header_Add canon cp1 k v) vs cp) xs m)
     \<subseteq> canon ` fst ` set xs \<union> fst ` set m"
proof (induction xs arbitrary: m)
  case Nil
  then show ?case by simp
next
  case (Cons x xs)
  obtain k vs where x: "x = (k, vs)" by (cases x)
  let ?m = "fold (\<lambda>v cp1. Header_Add canon cp1 k v) vs m"
  have 1: "fst ` set ?m \<subseteq> insert (canon k) (fst ` set m)"
    by (rule keys_fold_Add)
  have 2: "fst ` set (fold (\<lambda>(k, vs) cp. fold (\<lambda>v cp1. Header_Add canon cp1 k v) vs cp) xs ?m)
             \<subseteq> canon ` fst ` set xs \<union> fst ` set ?m"
    by (rule Cons.IH)
  have 3: "canon ` fst ` set xs \<union> fst ` set ?m \<subseteq> canon ` fst ` set (x # xs) \<union> fst ` set m"
    using 1 by (auto simp add: x)
  from 2 3 have "fst ` set (fold (\<lambda>(k, vs) cp. fold (\<lambda>v cp1. Header_Add canon cp1 k v) vs cp) xs ?m)
             \<subseteq> canon ` fst ` set (x # xs) \<union> fst ` set m"
    by (rule order_trans)
  then show ?case by (simp add: x)
qed

text \<open>Every key of the copy is the canonical form of a key of the original.\<close>

lemma keys_copyOf: "fst ` set (copyOf canon h) \<subseteq> canon ` fst ` set h"
  using keys_fold_fold_Add [of canon h "[]"] by (simp add: copyOf_def)

section \<open>Client.Do, step by step\<close>

text \<open>Lines 227-258 for a client whose template is in the store: two maps are added
  to the store, the empty map of the new \<^verbatim>\<open>*http.Request\<close> and the header set that
  goes out.\<close>

lemma Do_request_cases:
  "reqHeader c < length s \<Longrightarrow> Do_request env c r s =
     (case Do_prepareBody env (PopulateMissing env r) of
        (Some err, r1) \<Rightarrow> (Inl err, r1, s)
      | (None, r1) \<Rightarrow>
          (case requestError env (Method r1) (url c @ Endpoint r1) of
             Some err \<Rightarrow> (Inl err, r1, s)
           | None \<Rightarrow>
               (Inr \<lparr>rqMethod = Method r1, rqURL = url c @ Endpoint r1, rqBody = bodyReader r1,
                      rqHeader = Suc (length s)\<rparr>,
                r1, s @ [[], builtHeader env (s ! reqHeader c) r1])))"
  by (simp add: Do_request_def NewRequestWithContext_def alloc_def copyHeader_eq
      store_Set_def store_Add_def store_Del_def Let_def builtHeader_def nth_append
      Header_Del_def list_update_append
      split: prod.split option.split)

lemma Do_request_Inr:
  assumes "reqHeader c < length s" and "Do_request env c r s = (Inr req, r1, s1)"
  shows "rqHeader req = Suc (length s) \<and>
         s1 = s @ [[], builtHeader env (s ! reqHeader c) r1]"
  using assms
  by (auto simp add: Do_request_cases split: prod.splits option.splits)

lemma Do_request_frame:
  assumes "reqHeader c < length s" and "Do_request env c r s = (x, r1, s1)"
  shows "take (length s) s1 = s"
  using assms
  by (auto simp add: Do_request_cases split: prod.splits option.splits)

lemma Do_after_dispatch:
  "Do_request env c r s = (Inr req, r1, s1) \<Longrightarrow>
   Do_dispatch env c (outgoing s1 req) r1 w = (res, w1) \<Longrightarrow>
   Do env c r s w = (Do_classify env c r1 res w1, r1, s1, w1)"
  by (simp add: Do_def)

lemma Do_after_request_error:
  "Do_request env c r s = (Inl err, r1, s1) \<Longrightarrow>
   Do env c r s w = (Returned (None, None, Some err), r1, s1, w)"
  by (simp add: Do_def)

lemma Do_on_response:
  assumes "Do_request env c r s = (Inr req, r1, s1)"
    and "Do_dispatch env c (outgoing s1 req) r1 w = ((Some resp, body, None), w1)"
  shows "fst (Do env c r s w) = Do_classify env c r1 (Some resp, body, None) w1"
  by (simp add: Do_after_dispatch [OF assms])

text \<open>Lines 288-311 on a response: the two branches, with the error value written
  out. The decoder is run on a body that is not empty, and only its two fields are
  taken from it.\<close>

lemma Do_classify_response:
  "Do_classify env c r (Some resp, body, None) w =
     (if (200 \<le> StatusCode resp \<and> StatusCode resp < 300) \<or> StatusCode resp = 304
      then Returned (Some resp, body, None)
      else Returned (None, None, Some (ErrRESTError
             \<lparr>Code = (if bytesOf body = [] then 0
                      else fst (fst (json_Unmarshal env (bytesOf body)
                                       (0, statusMessage (StatusCode resp))))),
              Msg = (if bytesOf body = [] then statusMessage (StatusCode resp)
                     else snd (fst (json_Unmarshal env (bytesOf body)
                                      (0, statusMessage (StatusCode resp))))),
              Suggestion = bytesOf body,
              HTTPCode = StatusCode resp,
              ErrBucket = (case BucketGrouping (buckets c) w (hashedEndpoint r) of
                             None \<Rightarrow> [] | Some g \<Rightarrow> g),
              HashedEndpoint = hashedEndpoint r\<rparr>)))"
  by (auto simp add: Do_classify_def Let_def StatusNotModified_def split: prod.split)


text \<open>The work itself always answers with a response or an error, so a bucket that
  hands back the work's answer, or an error of its own, never makes \<^verbatim>\<open>Do\<close> panic.\<close>

lemma Do_work_answers:
  assumes "Do_work env c req w = ((resp, body, err), w1)"
  shows "resp \<noteq> None \<or> err \<noteq> None"
  using assms
  by (auto simp add: Do_work_def Let_def split: prod.splits sum.splits option.splits)

text \<open>A manager that never runs the callback: line 289 dereferences nil.\<close>

lemma Do_panics_with_idle_manager:
  "fst (Do env0 ((client0 resp304)\<lparr>buckets := managerIdle\<rparr>) request0 [header0] (0, 0)) = Panicked"
  by (simp add: Do_defs header_defs example_defs)

section \<open>Decoding the body\<close>

text \<open>
  Claim C3. Let \<open>compress\<close> be a compressor that the gzip reader inverts. For every
  byte sequence \<open>b\<close>, a response whose \<^verbatim>\<open>Content-Encoding\<close> is \<^verbatim>\<open>gzip\<close> and whose body
  is \<open>compress b\<close> decodes to exactly \<open>b\<close>; and a response whose
  \<^verbatim>\<open>Content-Encoding\<close> is not \<^verbatim>\<open>gzip\<close> decodes to its raw body, byte for byte.
  The encoding a response declares is what the code reads:
  \<^verbatim>\<open>resp.Header.Get("Content-Encoding")\<close>, the first value under the canonical key.
\<close>

theorem C3_decodeResponseBody:
  assumes "\<forall>b. \<exists>rd. gzip_NewReader env (compress b) = Inr rd \<and> gzip_ReadFrom env rd = Inr b"
  shows "(Header_Get (CanonicalMIMEHeaderKey env) (Header resp) ContentEncoding = GZIPCompression \<and>
          respBody resp = Inr (compress b) \<longrightarrow>
            decodeResponseBody env resp = (Some b, None)) \<and>
         (Header_Get (CanonicalMIMEHeaderKey env) (Header resp) ContentEncoding \<noteq> GZIPCompression \<and>
          respBody resp = Inr raw \<longrightarrow>
            decodeResponseBody env resp = (Some raw, None))"
proof -
  from assms obtain rd where "gzip_NewReader env (compress b) = Inr rd" "gzip_ReadFrom env rd = Inr b"
    by blast
  then show ?thesis by (simp add: decodeResponseBody_def)
qed

text \<open>A gzip-declared response wrapping "hello" decodes to "hello"; the response
  \<open>resp403\<close> declares nothing and decodes to its body.\<close>

theorem C3_witness_hello:
  "respBody respGzip = Inr (compress0 ''hello'') \<and>
   decodeResponseBody env0 respGzip = (Some ''hello'', None) \<and>
   decodeResponseBody env0 resp403 = (Some body403, None)"
proof -
  have rt: "\<forall>b. \<exists>rd. gzip_NewReader env0 (compress0 b) = Inr rd \<and> gzip_ReadFrom env0 rd = Inr b"
    by (simp add: env0_def gzipNewReader0_def compress0_def gzipMagic_def)
  show ?thesis
    using C3_decodeResponseBody [OF rt, of respGzip "''hello''" "[]"]
          C3_decodeResponseBody [OF rt, of resp403 "[]" body403]
    by (simp add: respGzip_def resp403_def compress0_def header_defs env0_def)
qed

section \<open>Validation before the network\<close>

text \<open>
  Claim C7, as amended. Take a request that, once finalised, has a body that is
  neither nil nor a reader, a content type other than JSON, and no body reader
  prepared yet. Then \<^verbatim>\<open>Do\<close> returns the validation error, and nothing else happens:
  whatever the transport and the bucket manager of the client are, the world and the
  store come back as they were, so no transaction was entered and the transport was
  not called.

  The condition on the body reader is needed. \<^verbatim>\<open>Do\<close> looks at the body only when
  \<^verbatim>\<open>r.bodyReader == nil\<close> (line 228), so a request that carries a reader from an
  earlier call is sent whatever its content type says.
\<close>

theorem C7_validation_error_before_io:
  assumes "Body (PopulateMissing env r) = Some (Value v)"
    and "bodyReader (PopulateMissing env r) = None"
    and "reqContentType (PopulateMissing env r) \<noteq> ContentTypeJSON"
  shows "Do env c r s w =
     (Returned (None, None, Some (errors_New
        ''unknown request body types and only be used in conjunction with httd.ContentTypeJSON'')),
      PopulateMissing env r, s, w)"
  using assms by (simp add: Do_def Do_request_def Do_prepareBody_def)

text \<open>\<open>requestPlain\<close> is refused; the counters of transactions and network calls stay
  at zero.\<close>

theorem C7_witness_plain_text:
  "Do env0 (client0 resp304) requestPlain [header0] (0, 0) =
     (Returned (None, None, Some (errors_New
        ''unknown request body types and only be used in conjunction with httd.ContentTypeJSON'')),
      requestPlain\<lparr>hashedEndpoint := ''/channels/1/messages''\<rparr>, [header0], (0, 0))"
  using C7_validation_error_before_io [of env0 requestPlain 7 "client0 resp304" "[header0]" "(0, 0)"]
  by (simp add: env0_def populate0_def requestPlain_def request0_def ContentTypeJSON_def)

text \<open>
  The claim without the condition fails. \<open>requestValue\<close> has a structured body and no
  content type; one call of \<^verbatim>\<open>Do\<close> sends it as JSON and leaves it as \<open>requestSent\<close>,
  with the marshalled body as its reader, the store as \<open>storeSent\<close> and the counters
  at one transaction and one network call. The caller then sets the content type to
  \<^verbatim>\<open>text/plain\<close> and dispatches again: the body is still a structured value and the
  content type is not JSON, yet there is no validation error, and a second
  transaction and a second network call are made.
\<close>

theorem C7_counterexample_reader_already_set:
  "Do env0 (client0 resp304) requestValue [header0] (0, 0) =
     (Returned (Some \<lparr>StatusCode = 304, Header = [(''X-Disgord-Now'', [''1''])], respBody = Inr []\<rparr>,
                Some [], None),
      requestSent, storeSent, (1, 1)) \<and>
   Body (PopulateMissing env0 (requestSent\<lparr>reqContentType := ''text/plain''\<rparr>)) = Some (Value 7) \<and>
   reqContentType (PopulateMissing env0 (requestSent\<lparr>reqContentType := ''text/plain''\<rparr>))
     \<noteq> ContentTypeJSON \<and>
   fst (Do env0 (client0 resp304) (requestSent\<lparr>reqContentType := ''text/plain''\<rparr>)
          storeSent (1, 1)) =
     Returned (Some \<lparr>StatusCode = 304, Header = [(''X-Disgord-Now'', [''1''])], respBody = Inr []\<rparr>,
               Some [], None) \<and>
   snd (snd (snd (Do env0 (client0 resp304) (requestSent\<lparr>reqContentType := ''text/plain''\<rparr>)
          storeSent (1, 1)))) = (2, 2)"
  by (simp add: Do_defs header_defs example_defs)

section \<open>The classification of the status\<close>

text \<open>
  Claim C1, as amended. Take a request that is dispatched and whose transaction hands
  back a response, a body and no error. If the status is in \<open>[200, 300)\<close> or is 304,
  \<^verbatim>\<open>Do\<close> returns that response and that body with a nil error. For every other
  status it returns a nil response, a nil body and an \<^verbatim>\<open>ErrREST\<close> with
  \<^item> the status as its HTTP code,
  \<^item> the body text as its suggestion,
  \<^item> the bucket manager's group of the request's bucket key, and that key,
  \<^item> for an empty body, the code 0 and the message that ends in the decimal status;
    for a body that is not empty, the code and the message that decoding the body
    into the error leaves, starting from those two.
\<close>

theorem C1_status_classification:
  assumes "Do_request env c r s = (Inr req, r1, s1)"
    and "Do_dispatch env c (outgoing s1 req) r1 w = ((Some resp, body, None), w1)"
  shows "fst (Do env c r s w) =
     (if (200 \<le> StatusCode resp \<and> StatusCode resp < 300) \<or> StatusCode resp = 304
      then Returned (Some resp, body, None)
      else Returned (None, None, Some (ErrRESTError
             \<lparr>Code = (if bytesOf body = [] then 0
                      else fst (fst (json_Unmarshal env (bytesOf body)
                                       (0, statusMessage (StatusCode resp))))),
              Msg = (if bytesOf body = [] then statusMessage (StatusCode resp)
                     else snd (fst (json_Unmarshal env (bytesOf body)
                                      (0, statusMessage (StatusCode resp))))),
              Suggestion = bytesOf body,
              HTTPCode = StatusCode resp,
              ErrBucket = (case BucketGrouping (buckets c) w1 (hashedEndpoint r1) of
                             None \<Rightarrow> [] | Some g \<Rightarrow> g),
              HashedEndpoint = hashedEndpoint r1\<rparr>)))"
  by (simp only: Do_on_response [OF assms] Do_classify_response)

text \<open>Status 304 is outside \<open>[200, 300)\<close> and still a success.\<close>

theorem C1_witness_not_modified:
  "fst (Do env0 (client0 resp304) request0 [header0] (0, 0)) =
     Returned (Some \<lparr>StatusCode = 304, Header = [(''X-Disgord-Now'', [''1''])], respBody = Inr []\<rparr>,
               Some [], None)"
  using C1_status_classification [OF Do_request_example Do_dispatch_resp304]
  by simp

text \<open>
  The claim as first stated says that the message of every such error embeds the
  numeric status. It does not when the body brings a message of its own: for status
  403 with the body \<open>body403\<close>, and a decoder that reads that body, the message is
  "Missing Access", which is not the status message and holds no digit 4.
\<close>

theorem C1_counterexample_message_overlaid:
  "fst (Do env0 (client0 resp403) request0 [header0] (0, 0)) =
     Returned (None, None, Some (ErrRESTError
       \<lparr>Code = 50001, Msg = ''Missing Access'', Suggestion = body403, HTTPCode = 403,
        ErrBucket = [''/channels/1/messages''], HashedEndpoint = ''/channels/1/messages''\<rparr>)) \<and>
   ''Missing Access'' \<noteq> statusMessage 403 \<and>
   CHR ''4'' \<notin> set ''Missing Access''"
  by (simp add: Do_defs header_defs example_defs)



section \<open>One outcome or the other\<close>



section \<open>The header set of the outgoing request\<close>

text \<open>
  Claim C6. Let the template of the client be in the store and hold no entry for the
  audit header (true of every client \<^verbatim>\<open>NewClient\<close> made, see
  \<open>NewClient_template_has_no\<close>, as long as the audit header is none of its three
  keys), and let the audit header differ from the content-type header. Then, for every call of \<^verbatim>\<open>Do\<close>:
  \<^item> every map that was in the store, the template among them, is unchanged;
  \<^item> when a request goes out, its header map is a new one, built from a copy of the
    template, and it has an entry for the audit header exactly when the request has a
    reason that is not empty.
\<close>

theorem C6_fresh_header_copy:
  assumes "reqHeader c < length s"
    and "CanonicalMIMEHeaderKey env (XAuditLogReason env)
           \<notin> CanonicalMIMEHeaderKey env ` fst ` set (s ! reqHeader c)"
    and "CanonicalMIMEHeaderKey env (XAuditLogReason env) \<noteq> CanonicalMIMEHeaderKey env ContentType"
  shows "(case Do env c r s w of
            (res, r1, s1, w1) \<Rightarrow> take (length s) s1 = s \<and> s1 ! reqHeader c = s ! reqHeader c) \<and>
         (\<forall>req r1 s1. Do_request env c r s = (Inr req, r1, s1) \<longrightarrow>
            length s \<le> rqHeader req \<and>
            rqHeader (outgoing s1 req) = builtHeader env (s ! reqHeader c) r1 \<and>
            (CanonicalMIMEHeaderKey env (XAuditLogReason env) \<in> fst ` set (rqHeader (outgoing s1 req))
               \<longleftrightarrow> Reason r1 \<noteq> []))"
proof -
  let ?canon = "CanonicalMIMEHeaderKey env"
  have frame: "take (length s) s1 = s \<and> s1 ! reqHeader c = s ! reqHeader c"
    if "Do_request env c r s = (x, r1, s1)" for x r1 s1
  proof -
    have t: "take (length s) s1 = s"
      using assms(1) that by (rule Do_request_frame)
    have "s1 ! reqHeader c = take (length s) s1 ! reqHeader c"
      using assms(1) by simp
    with t show ?thesis by simp
  qed
  have part1: "case Do env c r s w of
            (res, r1, s1, w1) \<Rightarrow> take (length s) s1 = s \<and> s1 ! reqHeader c = s ! reqHeader c"
    using frame by (auto simp add: Do_def split: prod.splits sum.splits)
  have keys: "?canon (XAuditLogReason env) \<notin> fst ` set (copyOf ?canon (s ! reqHeader c))"
    using keys_copyOf [of ?canon "s ! reqHeader c"] assms(2) by blast
  have audit: "(?canon (XAuditLogReason env) \<in> fst ` set (builtHeader env (s ! reqHeader c) r1))
                 \<longleftrightarrow> Reason r1 \<noteq> []" for r1
    using keys assms(3) by (simp add: builtHeader_def Let_def keys_Header_Add keys_Header_Set)
  have part2: "length s \<le> rqHeader req \<and>
            rqHeader (outgoing s1 req) = builtHeader env (s ! reqHeader c) r1 \<and>
            (?canon (XAuditLogReason env) \<in> fst ` set (rqHeader (outgoing s1 req))
               \<longleftrightarrow> Reason r1 \<noteq> [])"
    if "Do_request env c r s = (Inr req, r1, s1)" for req r1 s1
  proof -
    from Do_request_Inr [OF assms(1) that]
    have "rqHeader req = Suc (length s)" and "s1 = s @ [[], builtHeader env (s ! reqHeader c) r1]"
      by simp_all
    then have "rqHeader (outgoing s1 req) = builtHeader env (s ! reqHeader c) r1"
      by (simp add: outgoing_def nth_append)
    with audit [of r1] \<open>rqHeader req = Suc (length s)\<close> show ?thesis by simp
  qed
  from part1 part2 show ?thesis by blast
qed

text \<open>A request with the reason "why" and one without: the template \<open>header0\<close> stays
  at address 0, and only the first request goes out with the audit header.\<close>

theorem C6_witness_reason:
  "fst (snd (snd (Do env0 (client0 resp304) (request0\<lparr>Reason := ''why''\<rparr>) [header0] (0, 0)))) ! 0
     = header0 \<and>
   fst (Do_request env0 (client0 resp304) (request0\<lparr>Reason := ''why''\<rparr>) [header0]) =
     Inr \<lparr>rqMethod = ''GET'', rqURL = ''https://discord.com/api/v8/channels/1/messages'',
           rqBody = None, rqHeader = 2\<rparr> \<and>
   snd (snd (Do_request env0 (client0 resp304) (request0\<lparr>Reason := ''why''\<rparr>) [header0])) ! 2 =
     header0 @ [(''Content-Type'', [''application/json'']), (''X-Audit-Log-Reason'', [''why''])] \<and>
   snd (snd (Do_request env0 (client0 resp304) request0 [header0])) ! 2 =
     header0 @ [(''Content-Type'', [''application/json''])]"
proof -
  have a: "reqHeader (client0 resp304) < length [header0]"
    by (simp add: client0_def)
  have b: "CanonicalMIMEHeaderKey env0 (XAuditLogReason env0)
             \<notin> CanonicalMIMEHeaderKey env0 ` fst ` set ([header0] ! reqHeader (client0 resp304))"
    by (simp add: client0_def env0_def header0_def)
  have c: "CanonicalMIMEHeaderKey env0 (XAuditLogReason env0) \<noteq> CanonicalMIMEHeaderKey env0 ContentType"
    by (simp add: env0_def ContentType_def)
  have d: "Do_request env0 (client0 resp304) (request0\<lparr>Reason := ''why''\<rparr>) [header0] =
     (Inr \<lparr>rqMethod = ''GET'', rqURL = ''https://discord.com/api/v8/channels/1/messages'',
            rqBody = None, rqHeader = 2\<rparr>,
      request0\<lparr>reqContentType := ''application/json'', Reason := ''why'',
               hashedEndpoint := ''/channels/1/messages''\<rparr>,
      [header0, [],
       header0 @ [(''Content-Type'', [''application/json'']), (''X-Audit-Log-Reason'', [''why''])]])"
    by (simp add: Do_defs header_defs example_defs)
  show ?thesis
    using C6_fresh_header_copy [OF a b c, of "request0\<lparr>Reason := ''why''\<rparr>" "(0, 0)"]
          d Do_request_example [of resp304]
    by (auto simp add: client0_def split: prod.splits)
qed

end
